theory Spec2Isabelle
  imports Complex_Main
begin

section \<open>Data model\<close>

text \<open>
  The service of \<^verbatim>\<open>server.js\<close> keeps two collections in a document store, one of
  users and one of tasks, and answers six HTTP routes. The embedding is by explicit state
  passing: the store is a record \<open>db\<close>, and every Express callback is a function from
  the store to a response and the store afterwards.

  Scope of the model. A field of a JSON body is absent (\<open>None\<close>) or any JSON value; the
  \<^verbatim>\<open>Authorization\<close> header and the path parameter are strings. What reaches the
  \<^verbatim>\<open>catch\<close> blocks is a value that a library rejects: a password that is no string,
  a value the schema cannot cast to the type of its path. A lost connection to the store is
  outside the model. Identifiers (\<^verbatim>\<open>ObjectId\<close>) are natural numbers drawn from a
  counter kept with the store, and the clock counts whole seconds, the unit of a token's
  expiry.
\<close>

type_synonym oid = nat

type_synonym date = int

text \<open>The values of a parsed JSON body.\<close>

datatype json =
    JNull
  | JBool bool
  | JNumber rat
  | JString string
  | JArray "json list"
  | JObject "(string \<times> json) list"

text \<open>JavaScript's conversion to a boolean: \<^verbatim>\<open>null\<close>, \<^verbatim>\<open>false\<close>, zero and the
  empty string are falsy, every array and object is truthy.\<close>

fun truthy :: "json \<Rightarrow> bool" where
  "truthy JNull = False"
| "truthy (JBool b) = b"
| "truthy (JNumber n) = (n \<noteq> 0)"
| "truthy (JString s) = (s \<noteq> [])"
| "truthy (JArray xs) = True"
| "truthy (JObject kvs) = True"

text \<open>\<^verbatim>\<open>!x\<close> for a field \<open>x\<close> destructured from the body: an absent field is
  \<^verbatim>\<open>undefined\<close>.\<close>

fun falsy :: "json option \<Rightarrow> bool" where
  "falsy None = True"
| "falsy (Some v) = (\<not> truthy v)"

text \<open>\<^verbatim>\<open>UserSchema\<close>: username and password (the stored hash), with the identifier
  \<^verbatim>\<open>_id\<close> the store assigns.\<close>

record user =
  user_id :: oid
  username :: string
  password :: string

text \<open>\<^verbatim>\<open>TaskSchema\<close>: title, status, completionDate (of type Date) and the owner's
  identifier userId.\<close>

record task =
  task_id :: oid
  title :: string
  status :: string
  completionDate :: date
  userId :: oid

record db =
  users :: "user list"
  tasks :: "task list"
  next_id :: oid

text \<open>What \<^verbatim>\<open>res.status(n).json(...)\<close> sends: the status code and the body, one
  constructor for each shape of body the handlers build.\<close>

datatype json_body =
    Error string
  | Message string
  | Token string
  | MessageTask string task
  | Tasks "task list"

datatype response = Response (status_code: nat) (json: json_body)

text \<open>The claims of a token: \<^verbatim>\<open>{ userId, iat, exp }\<close>.\<close>

record payload =
  payload_userId :: oid
  iat :: nat
  exp :: nat

datatype jwt_error = JsonWebTokenError | TokenExpiredError

section \<open>Libraries\<close>

text \<open>
  What the libraries compute is a parameter of the model, collected in one record:
  \<^item> \<open>bcrypt_digest\<close>, the salted hash bcrypt computes from a password string, a cost
    and a salt, and \<open>bcrypt_matches\<close>, its comparison of a password string with a stored
    hash;
  \<^item> the token library's serialisation of claims and signature into the compact string,
    its inverse, and the keyed signature of the claims;
  \<^item> \<open>cast_string\<close> and \<open>cast_date\<close>, the schema's casts of a value that is stored
    on a path of type String (for a value that is no string) or Date, and
    \<open>query_string\<close>, the condition that a filter value which is no string puts on a
    path of type String; each is \<open>None\<close> where mongoose raises a CastError;
  \<^item> \<open>cast_oid\<close>, the cast of a path parameter to an ObjectId.
\<close>

record libs =
  bcrypt_digest :: "string \<Rightarrow> nat \<Rightarrow> string \<Rightarrow> string"
  bcrypt_matches :: "string \<Rightarrow> string \<Rightarrow> bool"
  jwt_encode :: "payload \<Rightarrow> string \<Rightarrow> string"
  jwt_decode :: "string \<Rightarrow> (payload \<times> string) option"
  jwt_mac :: "string \<Rightarrow> payload \<Rightarrow> string"
  cast_string :: "json \<Rightarrow> string option"
  query_string :: "json \<Rightarrow> (string \<Rightarrow> bool) option"
  cast_date :: "json \<Rightarrow> date option"
  cast_oid :: "string \<Rightarrow> oid option"

text \<open>\<^verbatim>\<open>bcrypt.hash(password, 10)\<close> and \<^verbatim>\<open>bcrypt.compare(password, hash)\<close>: both
  reject (\<open>None\<close>) when the password is not a string.\<close>

fun bcrypt_hash :: "libs \<Rightarrow> json \<Rightarrow> nat \<Rightarrow> string \<Rightarrow> string option" where
  "bcrypt_hash L (JString pw) cost salt = Some (bcrypt_digest L pw cost salt)"
| "bcrypt_hash L v cost salt = None"

fun bcrypt_compare :: "libs \<Rightarrow> json \<Rightarrow> string \<Rightarrow> bool option" where
  "bcrypt_compare L (JString pw) h = Some (bcrypt_matches L pw h)"
| "bcrypt_compare L v h = None"

text \<open>A value stored on a path of type String: a string is stored as it is.\<close>

fun String_cast :: "libs \<Rightarrow> json \<Rightarrow> string option" where
  "String_cast L (JString s) = Some s"
| "String_cast L v = cast_string L v"

text \<open>A filter value on a path of type String: a string selects the documents that hold
  that string.\<close>

fun String_query :: "libs \<Rightarrow> json \<Rightarrow> (string \<Rightarrow> bool) option" where
  "String_query L (JString s) = Some (\<lambda>x. x = s)"
| "String_query L v = query_string L v"

section \<open>JavaScript strings\<close>

text \<open>\<^verbatim>\<open>s.startsWith(p)\<close>.\<close>

fun startsWith :: "string \<Rightarrow> string \<Rightarrow> bool" where
  "startsWith s [] = True"
| "startsWith [] (p # ps) = False"
| "startsWith (c # cs) (p # ps) = (c = p \<and> startsWith cs ps)"

text \<open>\<^verbatim>\<open>s.replace(pat, rep)\<close> with a string pattern: the first occurrence of
  \<open>pat\<close> is replaced, the rest of \<open>s\<close> is kept (\<open>rep\<close> without \<^verbatim>\<open>$\<close>
  patterns, as the empty string the middleware passes).\<close>

fun replace :: "string \<Rightarrow> string \<Rightarrow> string \<Rightarrow> string" where
  "replace [] pat rep = (if pat = [] then rep else [])"
| "replace (c # cs) pat rep =
     (if startsWith (c # cs) pat then rep @ drop (length pat) (c # cs)
      else c # replace cs pat rep)"

section \<open>Token service\<close>

text \<open>
  Modelled from the spec: the token service, \<^verbatim>\<open>jwt.sign\<close> and \<^verbatim>\<open>jwt.verify\<close> of
  the jsonwebtoken package, which is not under \<^verbatim>\<open>src/\<close>. \<open>issue\<close> produces a signed
  token embedding userId and an absolute expiry one hour from issuance; \<open>verify\<close> fails
  if the token is malformed or its signature invalid, fails if the expiry has passed, and
  otherwise returns the embedded claims. The call in the login route is
  \<^verbatim>\<open>jwt.sign({ userId: user._id }, process.env.JWT_SECRET, { expiresIn: '1h' })\<close>.
\<close>

definition jwt_sign :: "libs \<Rightarrow> string \<Rightarrow> nat \<Rightarrow> oid \<Rightarrow> string" where
  "jwt_sign L secret now uid =
     (let p = \<lparr>payload_userId = uid, iat = now, exp = now + 3600\<rparr>
      in jwt_encode L p (jwt_mac L secret p))"

definition jwt_verify :: "libs \<Rightarrow> string \<Rightarrow> nat \<Rightarrow> string \<Rightarrow> jwt_error + payload" where
  "jwt_verify L secret now token =
     (case jwt_decode L token of
        None \<Rightarrow> Inl JsonWebTokenError
      | Some (p, sig) \<Rightarrow>
          if sig \<noteq> jwt_mac L secret p then Inl JsonWebTokenError
          else if exp p \<le> now then Inl TokenExpiredError
          else Inr p)"

section \<open>Authentication middleware\<close>

text \<open>
  \<^verbatim>\<open>authenticateJWT\<close>. \<open>bearer_token\<close> is its first line,
  \<^verbatim>\<open>req.header('Authorization')?.replace('Bearer ', '')\<close>: the header is read with
  optional chaining, so an absent header gives an undefined token. The test
  \<^verbatim>\<open>!token\<close> holds for undefined and for the empty string.
  The result is the response sent (\<open>Inl\<close>), or the claims stored in \<^verbatim>\<open>req.user\<close>
  when \<^verbatim>\<open>next()\<close> is called (\<open>Inr\<close>); the store is passed through, as for every
  callback.
\<close>

definition bearer_token :: "string option \<Rightarrow> string option" where
  "bearer_token header = map_option (\<lambda>h. replace h ''Bearer '' '''') header"

definition authenticateJWT ::
  "libs \<Rightarrow> string \<Rightarrow> nat \<Rightarrow> string option \<Rightarrow> db \<Rightarrow> (response + payload) \<times> db" where
  "authenticateJWT L secret now header s =
     (case bearer_token header of
        None \<Rightarrow> (Inl (Response 401 (Error ''Authentication required'')), s)
      | Some token \<Rightarrow>
          if token = [] then (Inl (Response 401 (Error ''Authentication required'')), s)
          else (case jwt_verify L secret now token of
                  Inl err \<Rightarrow> (Inl (Response 403 (Error ''Invalid or expired token'')), s)
                | Inr user \<Rightarrow> (Inr user, s)))"

text \<open>\<^verbatim>\<open>app.METHOD(path, authenticateJWT, handler)\<close>: the handler runs only when the
  middleware calls \<^verbatim>\<open>next()\<close>, with \<^verbatim>\<open>req.user\<close> set.\<close>

definition protected ::
  "libs \<Rightarrow> string \<Rightarrow> nat \<Rightarrow> string option \<Rightarrow> (payload \<Rightarrow> db \<Rightarrow> response \<times> db) \<Rightarrow>
     db \<Rightarrow> response \<times> db" where
  "protected L secret now header handler s =
     (case authenticateJWT L secret now header s of
        (Inl res, s') \<Rightarrow> (res, s')
      | (Inr user, s') \<Rightarrow> handler user s')"

section \<open>Store operations\<close>

text \<open>\<^verbatim>\<open>Model.deleteOne(filter)\<close>: the first document that matches is removed.\<close>

fun deleteOne :: "('a \<Rightarrow> bool) \<Rightarrow> 'a list \<Rightarrow> 'a list" where
  "deleteOne P [] = []"
| "deleteOne P (x # xs) = (if P x then xs else x # deleteOne P xs)"

text \<open>\<^verbatim>\<open>Model.updateOne(filter, update)\<close>: the first document that matches is
  updated.\<close>

fun updateOne :: "('a \<Rightarrow> bool) \<Rightarrow> ('a \<Rightarrow> 'a) \<Rightarrow> 'a list \<Rightarrow> 'a list" where
  "updateOne P f [] = []"
| "updateOne P f (x # xs) = (if P x then f x # xs else x # updateOne P f xs)"

text \<open>\<^verbatim>\<open>task.save()\<close> on a document that was read from the store: the paths the
  handler assigned (title, status, completionDate) are set on the stored document with the
  same \<^verbatim>\<open>_id\<close>.\<close>

definition save_task :: "task \<Rightarrow> task list \<Rightarrow> task list" where
  "save_task t ts =
     updateOne (\<lambda>x. task_id x = task_id t)
       (\<lambda>x. x\<lparr>title := title t, status := status t, completionDate := completionDate t\<rparr>) ts"

section \<open>Routes\<close>

text \<open>\<^verbatim>\<open>POST /register\<close>. \<open>salt\<close> is the random salt bcrypt draws. After the
  presence test the handler looks the username up, hashes the password, and saves the new
  user; the schema requires a username that casts to a non-empty string, and its unique index
  refuses a username that is stored already. Whatever is thrown on the way is answered
  with 500.\<close>

definition post_register ::
  "libs \<Rightarrow> string \<Rightarrow> json option \<Rightarrow> json option \<Rightarrow> db \<Rightarrow> response \<times> db" where
  "post_register L salt username_field password_field s =
     (if falsy username_field \<or> falsy password_field
      then (Response 400 (Error ''Please provide both username and password''), s)
      else
     (case (username_field, password_field) of
        (Some u, Some pw) \<Rightarrow>
          (case String_query L u of
             None \<Rightarrow> (Response 500 (Error ''An error occurred during registration''), s)
           | Some sel \<Rightarrow>
          (case find (\<lambda>x. sel (username x)) (users s) of
             Some existingUser \<Rightarrow> (Response 400 (Error ''Username already exists''), s)
           | None \<Rightarrow>
          (case bcrypt_hash L pw 10 salt of
             None \<Rightarrow> (Response 500 (Error ''An error occurred during registration''), s)
           | Some hashedPassword \<Rightarrow>
          (case String_cast L u of
             None \<Rightarrow> (Response 500 (Error ''An error occurred during registration''), s)
           | Some name \<Rightarrow>
               if name = [] \<or> name \<in> username ` set (users s)
               then (Response 500 (Error ''An error occurred during registration''), s)
               else
                 let newUser = \<lparr>user_id = next_id s, username = name,
                                password = hashedPassword\<rparr>
                 in (Response 201 (Message ''Registration successful!''),
                     s\<lparr>users := users s @ [newUser], next_id := Suc (next_id s)\<rparr>)))))
      | _ \<Rightarrow> (Response 400 (Error ''Please provide both username and password''), s)))"

text \<open>\<^verbatim>\<open>POST /login\<close>. \<^verbatim>\<open>res.json({ token })\<close> answers with status 200.\<close>

definition post_login ::
  "libs \<Rightarrow> string \<Rightarrow> nat \<Rightarrow> json option \<Rightarrow> json option \<Rightarrow> db \<Rightarrow> response \<times> db" where
  "post_login L secret now username_field password_field s =
     (if falsy username_field \<or> falsy password_field
      then (Response 400 (Error ''Please provide both username and password''), s)
      else
     (case (username_field, password_field) of
        (Some u, Some pw) \<Rightarrow>
          (case String_query L u of
             None \<Rightarrow> (Response 500 (Error ''An error occurred during login''), s)
           | Some sel \<Rightarrow>
          (case find (\<lambda>x. sel (username x)) (users s) of
             None \<Rightarrow> (Response 400 (Error ''Invalid username or password''), s)
           | Some usr \<Rightarrow>
          (case bcrypt_compare L pw (password usr) of
             None \<Rightarrow> (Response 500 (Error ''An error occurred during login''), s)
           | Some isPasswordCorrect \<Rightarrow>
               if \<not> isPasswordCorrect
               then (Response 400 (Error ''Invalid username or password''), s)
               else (Response 200 (Token (jwt_sign L secret now (user_id usr))), s))))
      | _ \<Rightarrow> (Response 400 (Error ''Please provide both username and password''), s)))"

text \<open>What the task schema makes of the three values of a body: the title and the status
  cast to String, the completion date cast to Date, all three required (an empty string
  fails \<^verbatim>\<open>required\<close>). \<open>None\<close> where \<^verbatim>\<open>save()\<close> rejects.\<close>

definition task_fields :: "libs \<Rightarrow> json \<Rightarrow> json \<Rightarrow> json \<Rightarrow> (string \<times> string \<times> date) option" where
  "task_fields L ti st cd =
     (case String_cast L ti of
        None \<Rightarrow> None
      | Some t \<Rightarrow>
     (case String_cast L st of
        None \<Rightarrow> None
      | Some s \<Rightarrow>
     (case cast_date L cd of
        None \<Rightarrow> None
      | Some d \<Rightarrow> if t = [] \<or> s = [] then None else Some (t, s, d))))"

text \<open>\<^verbatim>\<open>POST /tasks\<close>, the handler behind the middleware.\<close>

definition post_tasks_handler ::
  "libs \<Rightarrow> json option \<Rightarrow> json option \<Rightarrow> json option \<Rightarrow> payload \<Rightarrow> db \<Rightarrow>
     response \<times> db" where
  "post_tasks_handler L title_field status_field date_field user s =
     (if falsy title_field \<or> falsy status_field \<or> falsy date_field
      then (Response 400 (Error ''Please provide all fields''), s)
      else
     (case (title_field, status_field, date_field) of
        (Some ti, Some st, Some cd) \<Rightarrow>
          (case task_fields L ti st cd of
             None \<Rightarrow> (Response 500 (Error ''An error occurred while adding the task''), s)
           | Some (t, st', d) \<Rightarrow>
               let newTask = \<lparr>task_id = next_id s, title = t, status = st',
                              completionDate = d, userId = payload_userId user\<rparr>
               in (Response 201 (MessageTask ''Task added successfully'' newTask),
                   s\<lparr>tasks := tasks s @ [newTask], next_id := Suc (next_id s)\<rparr>))
      | _ \<Rightarrow> (Response 400 (Error ''Please provide all fields''), s)))"

text \<open>\<^verbatim>\<open>GET /tasks\<close>: \<^verbatim>\<open>Task.find({ userId: req.user.userId })\<close>.\<close>

definition get_tasks_handler :: "payload \<Rightarrow> db \<Rightarrow> response \<times> db" where
  "get_tasks_handler user s =
     (Response 200 (Tasks (filter (\<lambda>t. userId t = payload_userId user) (tasks s))), s)"

text \<open>\<^verbatim>\<open>DELETE /tasks/:id\<close>. The path parameter is a string; a string that is no
  ObjectId makes \<^verbatim>\<open>findOne\<close> reject.\<close>

definition delete_tasks_handler :: "libs \<Rightarrow> string \<Rightarrow> payload \<Rightarrow> db \<Rightarrow> response \<times> db" where
  "delete_tasks_handler L id_param user s =
     (case cast_oid L id_param of
        None \<Rightarrow> (Response 500 (Error ''An error occurred while deleting the task''), s)
      | Some i \<Rightarrow>
          (case find (\<lambda>t. task_id t = i \<and> userId t = payload_userId user) (tasks s) of
             None \<Rightarrow>
               (Response 404 (Error ''Task not found or not authorized to delete it''), s)
           | Some t \<Rightarrow>
               (Response 200 (Message ''Task deleted successfully''),
                s\<lparr>tasks := deleteOne (\<lambda>x. task_id x = i) (tasks s)\<rparr>)))"

text \<open>\<^verbatim>\<open>PUT /tasks/:id\<close>: the presence test, the lookup scoped by owner, then the three
  assignments and \<^verbatim>\<open>task.save()\<close>.\<close>

definition put_tasks_handler ::
  "libs \<Rightarrow> string \<Rightarrow> json option \<Rightarrow> json option \<Rightarrow> json option \<Rightarrow> payload \<Rightarrow> db \<Rightarrow>
     response \<times> db" where
  "put_tasks_handler L id_param title_field status_field date_field user s =
     (if falsy title_field \<or> falsy status_field \<or> falsy date_field
      then (Response 400 (Error ''Please provide all fields''), s)
      else
     (case (title_field, status_field, date_field) of
        (Some ti, Some st, Some cd) \<Rightarrow>
          (case cast_oid L id_param of
             None \<Rightarrow> (Response 500 (Error ''An error occurred while updating the task''), s)
           | Some i \<Rightarrow>
          (case find (\<lambda>t. task_id t = i \<and> userId t = payload_userId user) (tasks s) of
             None \<Rightarrow>
               (Response 404 (Error ''Task not found or not authorized to update it''), s)
           | Some t \<Rightarrow>
          (case task_fields L ti st cd of
             None \<Rightarrow> (Response 500 (Error ''An error occurred while updating the task''), s)
           | Some (ti', st', d) \<Rightarrow>
               let t' = t\<lparr>title := ti', status := st', completionDate := d\<rparr>
               in (Response 200 (MessageTask ''Task updated successfully'' t'),
                   s\<lparr>tasks := save_task t' (tasks s)\<rparr>))))
      | _ \<Rightarrow> (Response 400 (Error ''Please provide all fields''), s)))"

text \<open>The four protected routes, as \<^verbatim>\<open>app.METHOD\<close> registers them.\<close>

definition post_tasks ::
  "libs \<Rightarrow> string \<Rightarrow> nat \<Rightarrow> string option \<Rightarrow> json option \<Rightarrow> json option \<Rightarrow>
     json option \<Rightarrow> db \<Rightarrow> response \<times> db" where
  "post_tasks L secret now header title_field status_field date_field =
     protected L secret now header (post_tasks_handler L title_field status_field date_field)"

definition get_tasks ::
  "libs \<Rightarrow> string \<Rightarrow> nat \<Rightarrow> string option \<Rightarrow> db \<Rightarrow> response \<times> db" where
  "get_tasks L secret now header = protected L secret now header get_tasks_handler"

definition delete_tasks ::
  "libs \<Rightarrow> string \<Rightarrow> nat \<Rightarrow> string option \<Rightarrow> string \<Rightarrow> db \<Rightarrow> response \<times> db" where
  "delete_tasks L secret now header id_param =
     protected L secret now header (delete_tasks_handler L id_param)"

definition put_tasks ::
  "libs \<Rightarrow> string \<Rightarrow> nat \<Rightarrow> string option \<Rightarrow> string \<Rightarrow> json option \<Rightarrow> json option \<Rightarrow>
     json option \<Rightarrow> db \<Rightarrow> response \<times> db" where
  "put_tasks L secret now header id_param title_field status_field date_field =
     protected L secret now header
       (put_tasks_handler L id_param title_field status_field date_field)"

section \<open>The store's invariant\<close>

text \<open>
  What the document store maintains for the tasks collection: \<^verbatim>\<open>_id\<close> is unique
  within it, and every identifier in use was drawn from the counter before. It holds of the
  empty store and every route preserves it (\<open>wf_db_empty\<close>, \<open>wf_db_routes\<close> below).
\<close>

definition wf_db :: "db \<Rightarrow> bool" where
  "wf_db s =
     (distinct (map task_id (tasks s)) \<and> (\<forall>t \<in> set (tasks s). task_id t < next_id s))"

definition empty_db :: db where
  "empty_db = \<lparr>users = [], tasks = [], next_id = 0\<rparr>"

section \<open>Sample instances\<close>

text \<open>
  Concrete libraries and a concrete store, on which the theorems below are instantiated.
  The sample hash puts a dollar sign and the salt before the reversed password, and the
  sample signature is the secret itself. The sample codec writes the three claims in unary,
  each closed by a dot, before the signature. The sample casts accept the booleans as
  strings and two dates, and the sample filter accepts no value that is no string. Users
  alice (identifier 0, password \<open>secret\<close>) and bob (identifier 1, password
  \<open>password\<close>) own one task each.
\<close>

definition unary :: "char \<Rightarrow> string \<Rightarrow> (nat \<times> string) option" where
  "unary c t =
     (case dropWhile (\<lambda>x. x = c) t of
        [] \<Rightarrow> None
      | d # r \<Rightarrow> if d = CHR ''.'' then Some (length (takeWhile (\<lambda>x. x = c) t), r) else None)"

definition sample_encode :: "payload \<Rightarrow> string \<Rightarrow> string" where
  "sample_encode p sg =
     replicate (payload_userId p) CHR ''u'' @ ''.'' @ replicate (iat p) CHR ''i'' @ ''.'' @
     replicate (exp p) CHR ''e'' @ ''.'' @ sg"

definition sample_decode :: "string \<Rightarrow> (payload \<times> string) option" where
  "sample_decode t =
     (case unary CHR ''u'' t of
        None \<Rightarrow> None
      | Some (a, r1) \<Rightarrow>
     (case unary CHR ''i'' r1 of
        None \<Rightarrow> None
      | Some (b, r2) \<Rightarrow>
     (case unary CHR ''e'' r2 of
        None \<Rightarrow> None
      | Some (c, sg) \<Rightarrow> Some (\<lparr>payload_userId = a, iat = b, exp = c\<rparr>, sg))))"

definition sample_libs :: libs where
  "sample_libs =
     \<lparr>bcrypt_digest = (\<lambda>pw cost salt. ''$'' @ salt @ rev pw),
      bcrypt_matches = (\<lambda>pw h. drop 3 h = rev pw),
      jwt_encode = sample_encode,
      jwt_decode = sample_decode,
      jwt_mac = (\<lambda>secret p. secret),
      cast_string = (\<lambda>v. case v of JBool b \<Rightarrow> Some (if b then ''true'' else ''false'')
                          | _ \<Rightarrow> None),
      query_string = (\<lambda>v. None),
      cast_date = (\<lambda>v. if v = JString ''2024-01-01'' then Some 1704067200000
                        else if v = JString ''2024-06-30'' then Some 1719705600000 else None),
      cast_oid = (\<lambda>i. if i = ''2'' then Some 2 else if i = ''3'' then Some 3
                       else if i = ''4'' then Some 4 else None)\<rparr>"

definition sample_db :: db where
  "sample_db =
     \<lparr>users = [\<lparr>user_id = 0, username = ''alice'', password = ''$xxterces''\<rparr>,
               \<lparr>user_id = 1, username = ''bob'', password = ''$yydrowssap''\<rparr>],
      tasks = [\<lparr>task_id = 2, title = ''write'', status = ''open'',
                completionDate = 1704067200000, userId = 0\<rparr>,
               \<lparr>task_id = 3, title = ''read'', status = ''open'',
                completionDate = 1719705600000, userId = 1\<rparr>],
      next_id = 4\<rparr>"

text \<open>The claims and the header of a token that the login route issued to bob at time 100,
  and the same for alice.\<close>

definition bob_claims :: payload where
  "bob_claims = \<lparr>payload_userId = 1, iat = 100, exp = 3700\<rparr>"

definition bob_header :: "string option" where
  "bob_header = Some (''Bearer '' @ jwt_sign sample_libs ''s3cret'' 100 1)"

definition alice_claims :: payload where
  "alice_claims = \<lparr>payload_userId = 0, iat = 100, exp = 3700\<rparr>"

definition alice_token :: string where
  "alice_token = jwt_sign sample_libs ''s3cret'' 100 0"

section \<open>The bearer prefix\<close>

lemma startsWith_take: "startsWith s p = (take (length p) s = p)"
  by (induction s p rule: startsWith.induct) auto

lemma startsWith_append: "startsWith s p = (\<exists>r. s = p @ r)"
  by (induction s p rule: startsWith.induct) auto

lemma replace_absent:
  assumes "x \<in> set pat" and "x \<notin> set s"
  shows "replace s pat rep = s"
  using assms(2)
proof (induction s)
  case Nil
  from assms(1) have "pat \<noteq> []" by auto
  then show ?case by simp
next
  case (Cons c s)
  have "\<not> startsWith (c # s) pat"
  proof
    assume "startsWith (c # s) pat"
    then obtain r where "c # s = pat @ r" unfolding startsWith_append by blast
    then have "set pat \<subseteq> set (c # s)" by (metis set_append Un_upper1)
    with assms(1) Cons.prems show False by blast
  qed
  with Cons show ?case by simp
qed

lemma no_earlier_occurrence:
  assumes pat: "pat = b # mid @ [x]" and b: "b \<notin> set (mid @ [x])"
    and x: "x \<notin> set pre" and ne: "pre \<noteq> []"
  shows "\<not> startsWith (pre @ pat @ rest) pat"
proof
  assume "startsWith (pre @ pat @ rest) pat"
  then obtain r where "pre @ pat @ rest = pat @ r" unfolding startsWith_append by blast
  then obtain us where
    "(pre = pat @ us \<and> us @ pat @ rest = r) \<or> (pre @ us = pat \<and> pat @ rest = us @ r)"
    unfolding append_eq_append_conv2 by blast
  then show False
  proof
    assume "pre = pat @ us \<and> us @ pat @ rest = r"
    then have "x \<in> set pre" using pat by simp
    with x show False by simp
  next
    assume h: "pre @ us = pat \<and> pat @ rest = us @ r"
    from ne obtain c pre' where pre: "pre = c # pre'" by (cases pre) auto
    with h pat have c: "c = b" and rest: "pre' @ us = mid @ [x]" by auto
    have "us \<noteq> []"
    proof
      assume "us = []"
      with rest have "x \<in> set pre'" by (metis append_Nil2 in_set_conv_decomp)
      with x pre show False by simp
    qed
    then obtain u us' where us: "us = u # us'" by (cases us) auto
    with h pat have "u = b" by simp
    with us have "b \<in> set (pre' @ us)" by simp
    with rest b show False by simp
  qed
qed

lemma replace_first_occurrence:
  assumes pat: "pat = b # mid @ [x]" and b: "b \<notin> set (mid @ [x])"
  shows "x \<notin> set pre \<Longrightarrow> replace (pre @ pat @ rest) pat rep = pre @ rep @ rest"
proof (induction pre)
  case Nil
  have "startsWith (pat @ rest) pat" unfolding startsWith_append by blast
  moreover have "pat @ rest \<noteq> []" using pat by simp
  ultimately show ?case by (cases "pat @ rest") (auto dest: arg_cong [where f = "drop (length pat)"])
next
  case (Cons c pre)
  have "\<not> startsWith ((c # pre) @ pat @ rest) pat"
    using Cons.prems by (intro no_earlier_occurrence [OF pat b]) auto
  moreover have "replace (pre @ pat @ rest) pat rep = pre @ rep @ rest"
    using Cons by simp
  ultimately show ?case by simp
qed

section \<open>The sample libraries\<close>

lemma sample_libs_simps:
  "bcrypt_digest sample_libs pw cost salt = ''$'' @ salt @ rev pw"
  "bcrypt_matches sample_libs pw h = (drop 3 h = rev pw)"
  "jwt_encode sample_libs = sample_encode"
  "jwt_decode sample_libs = sample_decode"
  "jwt_mac sample_libs secret p = secret"
  "cast_string sample_libs v =
     (case v of JBool b \<Rightarrow> Some (if b then ''true'' else ''false'') | _ \<Rightarrow> None)"
  "query_string sample_libs v = None"
  "cast_date sample_libs v =
     (if v = JString ''2024-01-01'' then Some 1704067200000
      else if v = JString ''2024-06-30'' then Some 1719705600000 else None)"
  "cast_oid sample_libs i =
     (if i = ''2'' then Some 2 else if i = ''3'' then Some 3
      else if i = ''4'' then Some 4 else None)"
  by (simp_all add: sample_libs_def)

lemma unary_replicate:
  "c \<noteq> CHR ''.'' \<Longrightarrow> unary c (replicate n c @ CHR ''.'' # r) = Some (n, r)"
proof -
  assume c: "c \<noteq> CHR ''.''"
  have "dropWhile (\<lambda>x. x = c) (replicate n c @ CHR ''.'' # r) = CHR ''.'' # r"
    using c by (induction n) auto
  moreover have "takeWhile (\<lambda>x. x = c) (replicate n c @ CHR ''.'' # r) = replicate n c"
    using c by (induction n) auto
  ultimately show ?thesis by (simp add: unary_def)
qed

lemma sample_decode_encode: "sample_decode (sample_encode p sg) = Some (p, sg)"
  by (simp add: sample_decode_def sample_encode_def unary_replicate)

lemma sample_round_trip:
  "\<forall>p sg. jwt_decode sample_libs (jwt_encode sample_libs p sg) = Some (p, sg)"
  by (simp add: sample_libs_simps sample_decode_encode)

text \<open>Verification of a token that \<open>jwt_sign\<close> issued, for a library that decodes what
  it encodes.\<close>

lemma jwt_verify_jwt_sign:
  assumes "\<forall>p sg. jwt_decode L (jwt_encode L p sg) = Some (p, sg)"
  shows "jwt_verify L secret now (jwt_sign L secret t0 uid) =
           (if t0 + 3600 \<le> now then Inl TokenExpiredError
            else Inr \<lparr>payload_userId = uid, iat = t0, exp = t0 + 3600\<rparr>)"
  using assms by (simp add: jwt_verify_def jwt_sign_def Let_def)

lemma sample_token_chars:
  "CHR '' '' \<notin> set (jwt_sign sample_libs ''s3cret'' t0 uid)"
  "jwt_sign sample_libs ''s3cret'' t0 uid \<noteq> []"
  by (simp_all add: jwt_sign_def sample_libs_simps sample_encode_def set_replicate_conv_if)

lemma bearer_token_prefix: "bearer_token (Some (''Bearer '' @ t)) = Some t"
  by (simp add: bearer_token_def)

lemma sample_auth_bob: "authenticateJWT sample_libs ''s3cret'' 200 bob_header s = (Inr bob_claims, s)"
  using jwt_verify_jwt_sign [OF sample_round_trip, of "''s3cret''" 200 100 1]
  by (simp add: authenticateJWT_def bob_header_def bearer_token_def sample_token_chars
      bob_claims_def)

section \<open>Authentication\<close>



text \<open>
  Claim C10. The middleware does not require the bearer prefix. A header that is a valid
  token alone (a token has no space in it) is authenticated, exactly as the same token
  behind \<^verbatim>\<open>Bearer \<close>; only the first occurrence of \<^verbatim>\<open>Bearer \<close> is removed,
  wherever it stands, and what is left is what is verified; a header that is exactly
  \<^verbatim>\<open>Bearer \<close> leaves the empty token and is answered with 401, not 403.
\<close>

theorem bearer_prefix_optional:
  "(CHR '' '' \<notin> set token \<and> token \<noteq> [] \<and> jwt_verify L secret now token = Inr user \<longrightarrow>
      authenticateJWT L secret now (Some token) s = (Inr user, s) \<and>
      authenticateJWT L secret now (Some (''Bearer '' @ token)) s = (Inr user, s))
   \<and> (CHR '' '' \<notin> set pre \<longrightarrow>
        bearer_token (Some (pre @ ''Bearer '' @ rest)) = Some (pre @ rest))
   \<and> authenticateJWT L secret now (Some ''Bearer '') s =
        (Inl (Response 401 (Error ''Authentication required'')), s)"
proof (intro conjI impI)
  assume h: "CHR '' '' \<notin> set token \<and> token \<noteq> [] \<and> jwt_verify L secret now token = Inr user"
  then have "bearer_token (Some token) = Some token"
    using replace_absent [of "CHR '' ''" "''Bearer ''" token "[]"]
    by (simp add: bearer_token_def)
  with h show "authenticateJWT L secret now (Some token) s = (Inr user, s)"
    by (simp add: authenticateJWT_def)
  have "bearer_token (Some (''Bearer '' @ token)) = Some token"
    by (simp add: bearer_token_def)
  with h show "authenticateJWT L secret now (Some (''Bearer '' @ token)) s = (Inr user, s)"
    by (simp add: authenticateJWT_def)
next
  assume "CHR '' '' \<notin> set pre"
  then show "bearer_token (Some (pre @ ''Bearer '' @ rest)) = Some (pre @ rest)"
    using replace_first_occurrence
      [of "''Bearer ''" "CHR ''B''" "''earer''" "CHR '' ''" pre rest "[]"]
    by (simp add: bearer_token_def)
next
  show "authenticateJWT L secret now (Some ''Bearer '') s =
        (Inl (Response 401 (Error ''Authentication required'')), s)"
    by (simp add: authenticateJWT_def bearer_token_def)
qed

theorem bearer_prefix_optional_witness:
  "authenticateJWT sample_libs ''s3cret'' 200 (Some alice_token) sample_db =
     (Inr alice_claims, sample_db)
   \<and> authenticateJWT sample_libs ''s3cret'' 200 (Some (''Bearer '' @ alice_token)) sample_db =
     (Inr alice_claims, sample_db)
   \<and> bearer_token (Some ''xBearer alice.s3cret'') = Some ''xalice.s3cret''"
proof -
  have v: "jwt_verify sample_libs ''s3cret'' 200 alice_token = Inr alice_claims"
    using jwt_verify_jwt_sign [OF sample_round_trip, of "''s3cret''" 200 100 0]
    by (simp add: alice_token_def alice_claims_def)
  have c: "CHR '' '' \<notin> set alice_token" "alice_token \<noteq> []" "CHR '' '' \<notin> set ''x''"
    by (simp_all add: alice_token_def sample_token_chars)
  show ?thesis
    using v c bearer_prefix_optional [of alice_token sample_libs "''s3cret''" 200
        alice_claims sample_db "''x''" "''alice.s3cret''"]
    by simp
qed

text \<open>The middleware's answer does not depend on the store, so a header that authenticates
  once authenticates before every store.\<close>

lemma protected_authenticated:
  "authenticateJWT L secret now header s0 = (Inr user, s0) \<Longrightarrow>
     protected L secret now header handler s = handler user s"
  by (auto simp: protected_def authenticateJWT_def split: option.splits if_splits sum.splits)

lemmas sample_route_bob = protected_authenticated [OF sample_auth_bob]

text \<open>
  Claim C8. The outcome of the middleware, and with it the claims it resolves, is the same
  before any two stores, and the middleware leaves the store as it is: no user is looked up.
  In particular the task list answered to a token is the same whatever the users collection
  holds, also when the token's user is no longer in it.
\<close>

theorem verify_ignores_credential_store:
  "fst (authenticateJWT L secret now header s1) = fst (authenticateJWT L secret now header s2)
   \<and> snd (authenticateJWT L secret now header s1) = s1
   \<and> fst (get_tasks L secret now header (s1\<lparr>users := us\<rparr>)) =
       fst (get_tasks L secret now header s1)"
  by (auto simp: get_tasks_def protected_def get_tasks_handler_def authenticateJWT_def
      split: option.splits sum.splits)


theorem verify_ignores_credential_store_witness:
  "fst (authenticateJWT sample_libs ''s3cret'' 200 bob_header (sample_db\<lparr>users := []\<rparr>)) =
     Inr bob_claims
   \<and> fst (get_tasks sample_libs ''s3cret'' 200 bob_header (sample_db\<lparr>users := []\<rparr>)) =
     Response 200 (Tasks [\<lparr>task_id = 3, title = ''read'', status = ''open'',
                completionDate = 1719705600000, userId = 1\<rparr>])"
proof -
  have "fst (get_tasks sample_libs ''s3cret'' 200 bob_header sample_db) =
     Response 200 (Tasks [\<lparr>task_id = 3, title = ''read'', status = ''open'',
                completionDate = 1719705600000, userId = 1\<rparr>])"
    by (simp add: get_tasks_def sample_route_bob get_tasks_handler_def sample_db_def
        bob_claims_def)
  then show ?thesis
    using sample_auth_bob [of sample_db]
      verify_ignores_credential_store [of sample_libs "''s3cret''" 200
        bob_header "sample_db\<lparr>users := []\<rparr>" sample_db]
      verify_ignores_credential_store [of sample_libs "''s3cret''" 200
        bob_header sample_db sample_db "[]"]
    by simp
qed

section \<open>Presence checks\<close>

text \<open>
  Claim C9. When one of title, status and completionDate is missing from the body (absent, or
  any other value the test \<^verbatim>\<open>!x\<close> holds of, such as the empty string), the handlers
  of \<^verbatim>\<open>POST /tasks\<close> and \<^verbatim>\<open>PUT /tasks/:id\<close> answer 400 with the same body
  before every store and return the store as it was, and so do the two routes for an
  authenticated request; likewise \<^verbatim>\<open>POST /register\<close> and \<^verbatim>\<open>POST /login\<close> when
  username or password is missing.
\<close>

theorem missing_fields_rejected:
  "(falsy title_field \<or> falsy status_field \<or> falsy date_field \<longrightarrow>
      post_tasks_handler L title_field status_field date_field user s =
        (Response 400 (Error ''Please provide all fields''), s) \<and>
      put_tasks_handler L id_param title_field status_field date_field user s =
        (Response 400 (Error ''Please provide all fields''), s) \<and>
      (authenticateJWT L secret now header s = (Inr user, s) \<longrightarrow>
         post_tasks L secret now header title_field status_field date_field s =
           (Response 400 (Error ''Please provide all fields''), s) \<and>
         put_tasks L secret now header id_param title_field status_field date_field s =
           (Response 400 (Error ''Please provide all fields''), s)))
   \<and> (falsy username_field \<or> falsy password_field \<longrightarrow>
        post_register L salt username_field password_field s =
          (Response 400 (Error ''Please provide both username and password''), s) \<and>
        post_login L secret now username_field password_field s =
          (Response 400 (Error ''Please provide both username and password''), s))
   \<and> falsy None \<and> falsy (Some (JString []))"
proof (intro conjI impI)
  assume m: "falsy title_field \<or> falsy status_field \<or> falsy date_field"
  then show post: "post_tasks_handler L title_field status_field date_field user s =
        (Response 400 (Error ''Please provide all fields''), s)"
    by (simp add: post_tasks_handler_def)
  from m show put: "put_tasks_handler L id_param title_field status_field date_field user s =
        (Response 400 (Error ''Please provide all fields''), s)"
    by (simp add: put_tasks_handler_def)
  assume a: "authenticateJWT L secret now header s = (Inr user, s)"
  show "post_tasks L secret now header title_field status_field date_field s =
           (Response 400 (Error ''Please provide all fields''), s)"
    using post by (simp add: post_tasks_def protected_authenticated [OF a])
  show "put_tasks L secret now header id_param title_field status_field date_field s =
           (Response 400 (Error ''Please provide all fields''), s)"
    using put by (simp add: put_tasks_def protected_authenticated [OF a])
next
  assume m: "falsy username_field \<or> falsy password_field"
  then show "post_register L salt username_field password_field s =
          (Response 400 (Error ''Please provide both username and password''), s)"
    by (simp add: post_register_def)
  from m show "post_login L secret now username_field password_field s =
          (Response 400 (Error ''Please provide both username and password''), s)"
    by (simp add: post_login_def)
qed simp_all

theorem missing_fields_rejected_witness:
  "post_tasks sample_libs ''s3cret'' 200 bob_header
       (Some (JString ''read'')) None (Some (JString ''2024-01-01'')) sample_db =
     (Response 400 (Error ''Please provide all fields''), sample_db)
   \<and> put_tasks sample_libs ''s3cret'' 200 bob_header ''3''
       (Some (JString ''read'')) None (Some (JString ''2024-01-01'')) sample_db =
     (Response 400 (Error ''Please provide all fields''), sample_db)
   \<and> post_register sample_libs ''zz'' (Some (JString ''carol'')) None sample_db =
     (Response 400 (Error ''Please provide both username and password''), sample_db)
   \<and> post_login sample_libs ''s3cret'' 200 (Some (JString '''')) (Some (JString ''secret''))
       sample_db =
     (Response 400 (Error ''Please provide both username and password''), sample_db)"
  using sample_auth_bob [of sample_db]
    missing_fields_rejected [of "Some (JString ''read'')" None "Some (JString ''2024-01-01'')"
      sample_libs bob_claims sample_db "''3''" "''s3cret''" 200
      bob_header "Some (JString ''carol'')" None "''zz''"]
    missing_fields_rejected [of "Some (JString ''read'')" None "Some (JString ''2024-01-01'')"
      sample_libs bob_claims sample_db "''3''" "''s3cret''" 200
      bob_header "Some (JString '''')" "Some (JString ''secret'')" "''zz''"]
  by simp

section \<open>Login\<close>




text \<open>
  Claim C5. A login with the username and the password of a stored user answers 200 with a
  token. For a token library that decodes what it encodes, verification of that token
  succeeds with the user's identifier at every time before one hour (3600 seconds) after
  issuance, and fails as expired at every time from one hour after issuance on.
\<close>

theorem login_token_valid_one_hour:
  assumes "name \<noteq> []" and "pw \<noteq> []"
    and "find (\<lambda>x. username x = name) (users s) = Some usr"
    and "bcrypt_matches L pw (password usr)"
    and "\<forall>p sg. jwt_decode L (jwt_encode L p sg) = Some (p, sg)"
  shows "\<exists>token. post_login L secret t0 (Some (JString name)) (Some (JString pw)) s =
                    (Response 200 (Token token), s)
           \<and> (\<forall>now. now < t0 + 3600 \<longrightarrow>
                 (\<exists>p. jwt_verify L secret now token = Inr p \<and> payload_userId p = user_id usr))
           \<and> (\<forall>now. t0 + 3600 \<le> now \<longrightarrow>
                 jwt_verify L secret now token = Inl TokenExpiredError)"
proof -
  have "post_login L secret t0 (Some (JString name)) (Some (JString pw)) s =
      (Response 200 (Token (jwt_sign L secret t0 (user_id usr))), s)"
    using assms(1-4) by (simp add: post_login_def)
  moreover have "\<exists>p. jwt_verify L secret now (jwt_sign L secret t0 (user_id usr)) = Inr p \<and>
      payload_userId p = user_id usr" if "now < t0 + 3600" for now
    using that by (simp add: jwt_verify_jwt_sign [OF assms(5)])
  moreover have "jwt_verify L secret now (jwt_sign L secret t0 (user_id usr)) =
      Inl TokenExpiredError" if "t0 + 3600 \<le> now" for now
    using that by (simp add: jwt_verify_jwt_sign [OF assms(5)])
  ultimately show ?thesis by blast
qed

theorem login_token_valid_one_hour_witness:
  "post_login sample_libs ''s3cret'' 100 (Some (JString ''alice'')) (Some (JString ''secret''))
       sample_db =
     (Response 200 (Token alice_token), sample_db)
   \<and> jwt_verify sample_libs ''s3cret'' 3699 alice_token = Inr alice_claims
   \<and> jwt_verify sample_libs ''s3cret'' 3700 alice_token = Inl TokenExpiredError"
proof -
  let ?alice = "\<lparr>user_id = 0, username = ''alice'', password = ''$xxterces''\<rparr>"
  have f: "find (\<lambda>x. username x = ''alice'') (users sample_db) = Some ?alice"
    by (simp add: sample_db_def)
  have c: "bcrypt_matches sample_libs ''secret'' (password ?alice)"
    by (simp add: sample_libs_simps)
  from login_token_valid_one_hour [OF _ _ f c sample_round_trip, of "''s3cret''" 100]
  obtain token where l: "post_login sample_libs ''s3cret'' 100 (Some (JString ''alice''))
        (Some (JString ''secret'')) sample_db = (Response 200 (Token token), sample_db)"
    and ok: "\<forall>now. now < 100 + 3600 \<longrightarrow>
        (\<exists>p. jwt_verify sample_libs ''s3cret'' now token = Inr p \<and>
             payload_userId p = user_id ?alice)"
    and ex: "\<forall>now. 100 + 3600 \<le> now \<longrightarrow>
        jwt_verify sample_libs ''s3cret'' now token = Inl TokenExpiredError"
    by auto
  have "post_login sample_libs ''s3cret'' 100 (Some (JString ''alice''))
        (Some (JString ''secret'')) sample_db = (Response 200 (Token alice_token), sample_db)"
    using f c by (simp add: post_login_def alice_token_def)
  with l have t: "token = alice_token" by simp
  have "jwt_verify sample_libs ''s3cret'' 3699 alice_token = Inr alice_claims"
    using jwt_verify_jwt_sign [OF sample_round_trip, of "''s3cret''" 3699 100 0]
    by (simp add: alice_token_def alice_claims_def)
  moreover from ex t have "jwt_verify sample_libs ''s3cret'' 3700 alice_token =
      Inl TokenExpiredError"
    by simp
  ultimately show ?thesis using l t by simp
qed

section \<open>Store lemmas\<close>

lemma updateOne_distinct:
  "distinct (map f xs) \<Longrightarrow>
     updateOne (\<lambda>x. f x = i) g xs = map (\<lambda>x. if f x = i then g x else x) xs"
proof (induction xs)
  case Nil
  show ?case by simp
next
  case (Cons x xs)
  show ?case
  proof (cases "f x = i")
    case True
    from Cons.prems have "f x \<notin> f ` set xs" by simp
    with True have "\<forall>y \<in> set xs. f y \<noteq> i" by (metis image_eqI)
    then have "map (\<lambda>x. if f x = i then g x else x) xs = xs" by (simp add: map_idI)
    with True show ?thesis by simp
  next
    case False
    with Cons show ?thesis by simp
  qed
qed

lemma deleteOne_distinct:
  "distinct (map f xs) \<Longrightarrow> deleteOne (\<lambda>x. f x = i) xs = filter (\<lambda>x. f x \<noteq> i) xs"
proof (induction xs)
  case Nil
  show ?case by simp
next
  case (Cons x xs)
  show ?case
  proof (cases "f x = i")
    case True
    from Cons.prems have "f x \<notin> f ` set xs" by simp
    with True have "\<forall>y \<in> set xs. f y \<noteq> i" by (metis image_eqI)
    then have "filter (\<lambda>x. f x \<noteq> i) xs = xs" by simp
    with True show ?thesis by simp
  next
    case False
    with Cons show ?thesis by simp
  qed
qed

lemma find_owned_None:
  assumes "distinct (map task_id ts)" and "t \<in> set ts" and "userId t \<noteq> uid"
  shows "find (\<lambda>x. task_id x = task_id t \<and> userId x = uid) ts = None"
proof -
  have "x = t" if "x \<in> set ts" and "task_id x = task_id t" for x
    using that assms(1,2) by (meson distinct_map inj_onD)
  with assms(3) show ?thesis by (auto simp: find_None_iff)
qed

lemma wf_db_empty: "wf_db empty_db"
  by (simp add: wf_db_def empty_db_def)

lemma wf_db_post_tasks_handler:
  "wf_db s \<Longrightarrow> wf_db (snd (post_tasks_handler L tf sf df user s))"
  by (auto simp: post_tasks_handler_def wf_db_def Let_def less_Suc_eq split: option.splits)

lemma wf_db_delete_tasks_handler:
  "wf_db s \<Longrightarrow> wf_db (snd (delete_tasks_handler L id_param user s))"
  by (auto simp: delete_tasks_handler_def wf_db_def deleteOne_distinct distinct_map_filter
      split: option.splits)

lemma wf_db_save_task:
  assumes "wf_db s"
  shows "wf_db (s\<lparr>tasks := save_task t (tasks s)\<rparr>)"
proof -
  have "save_task t (tasks s) =
      map (\<lambda>x. if task_id x = task_id t
                then x\<lparr>title := title t, status := status t, completionDate := completionDate t\<rparr>
                else x) (tasks s)"
    using assms by (simp add: save_task_def wf_db_def updateOne_distinct)
  moreover have "map task_id (map (\<lambda>x. if task_id x = task_id t
                then x\<lparr>title := title t, status := status t, completionDate := completionDate t\<rparr>
                else x) (tasks s)) = map task_id (tasks s)"
    by simp
  ultimately have ids: "map task_id (save_task t (tasks s)) = map task_id (tasks s)"
    by simp
  have "task_id y < next_id s" if "y \<in> set (save_task t (tasks s))" for y
  proof -
    from that have "task_id y \<in> set (map task_id (save_task t (tasks s)))" by simp
    with ids obtain x where "x \<in> set (tasks s)" and "task_id x = task_id y" by auto
    with assms show ?thesis by (auto simp: wf_db_def)
  qed
  with ids assms show ?thesis by (simp add: wf_db_def)
qed

lemma wf_db_put_tasks_handler:
  assumes "wf_db s"
  shows "wf_db (snd (put_tasks_handler L id_param tf sf df user s))"
  using assms wf_db_save_task [OF assms]
  by (auto simp: put_tasks_handler_def Let_def split: option.splits)

lemma wf_db_protected:
  assumes "\<And>user. wf_db (snd (handler user s))" and "wf_db s"
  shows "wf_db (snd (protected L secret now header handler s))"
  using assms
  by (auto simp: protected_def authenticateJWT_def split: option.splits sum.splits)

lemma wf_db_routes:
  assumes "wf_db s"
  shows "wf_db (snd (post_register L salt uf pf s))"
    and "wf_db (snd (post_login L secret now uf pf s))"
    and "wf_db (snd (post_tasks L secret now header tf sf df s))"
    and "wf_db (snd (get_tasks L secret now header s))"
    and "wf_db (snd (delete_tasks L secret now header id_param s))"
    and "wf_db (snd (put_tasks L secret now header id_param tf sf df s))"
proof -
  show "wf_db (snd (post_register L salt uf pf s))"
    using assms by (auto simp: post_register_def wf_db_def Let_def less_Suc_eq split: option.splits)
  show "wf_db (snd (post_login L secret now uf pf s))"
    using assms by (auto simp: post_login_def split: option.splits)
  show "wf_db (snd (post_tasks L secret now header tf sf df s))"
    unfolding post_tasks_def
    by (rule wf_db_protected) (simp_all add: assms wf_db_post_tasks_handler)
  show "wf_db (snd (get_tasks L secret now header s))"
    unfolding get_tasks_def
    by (rule wf_db_protected) (simp_all add: assms get_tasks_handler_def)
  show "wf_db (snd (delete_tasks L secret now header id_param s))"
    unfolding delete_tasks_def
    by (rule wf_db_protected) (simp_all add: assms wf_db_delete_tasks_handler)
  show "wf_db (snd (put_tasks L secret now header id_param tf sf df s))"
    unfolding put_tasks_def
    by (rule wf_db_protected) (simp_all add: assms wf_db_put_tasks_handler)
qed

lemma wf_db_sample: "wf_db sample_db"
  by (simp add: wf_db_def sample_db_def)

lemma find_append_fresh:
  "\<forall>x \<in> set xs. \<not> P x \<Longrightarrow> find P (xs @ ys) = find P ys"
  by (induction xs) auto

lemma updateOne_append_fresh:
  "\<forall>x \<in> set xs. \<not> P x \<Longrightarrow> updateOne P f (xs @ ys) = xs @ updateOne P f ys"
  by (induction xs) auto

lemma deleteOne_append_fresh:
  "\<forall>x \<in> set xs. \<not> P x \<Longrightarrow> deleteOne P (xs @ ys) = xs @ deleteOne P ys"
  by (induction xs) auto

section \<open>Registration\<close>

text \<open>
  Claim C4, as the claim states it, fails for the empty username, which the presence test
  rejects with 400; for a non-empty password that is no string, which
  \<^verbatim>\<open>bcrypt.hash\<close> rejects, so that the route answers 500; and for a username that
  is an object, which the schema cannot cast to a string, with 500 again. In the three runs
  no user has the username and nothing is stored.
\<close>

theorem register_counterexample:
  "users empty_db = []
   \<and> post_register sample_libs ''zz'' (Some (JString '''')) (Some (JString ''secret'')) empty_db =
       (Response 400 (Error ''Please provide both username and password''), empty_db)
   \<and> post_register sample_libs ''zz'' (Some (JString ''dave'')) (Some (JNumber 12345)) empty_db =
       (Response 500 (Error ''An error occurred during registration''), empty_db)
   \<and> post_register sample_libs ''zz'' (Some (JObject [(''a'', JNumber 1)]))
       (Some (JString ''secret'')) empty_db =
       (Response 500 (Error ''An error occurred during registration''), empty_db)"
  by (simp add: post_register_def empty_db_def sample_libs_simps)

text \<open>
  Claim C4, amended. For every non-empty string as username and non-empty string as
  password: when no user has the username, registration answers 201 and appends one user,
  with a fresh identifier, the username, and as password the salted hash of the password
  (what bcrypt returns for the password at cost 10 with the salt it drew), never the
  plaintext; the tasks are unchanged. Registering the same username again, with any password
  that is present, answers 400 \<^verbatim>\<open>Username already exists\<close> and leaves the store as it
  is. That the hash is one-way is bcrypt's property, assumed here in the form the
  conclusion needs: no password is its own hash.
\<close>

theorem register_then_duplicate:
  assumes "name \<noteq> []" and "pw \<noteq> []" and "name \<notin> username ` set (users s)"
    and "\<forall>p cost sl. bcrypt_digest L p cost sl \<noteq> p"
  shows "\<exists>s' newUser.
           post_register L salt (Some (JString name)) (Some (JString pw)) s =
             (Response 201 (Message ''Registration successful!''), s')
           \<and> users s' = users s @ [newUser]
           \<and> newUser = \<lparr>user_id = next_id s, username = name,
                         password = bcrypt_digest L pw 10 salt\<rparr>
           \<and> password newUser \<noteq> pw
           \<and> tasks s' = tasks s
           \<and> (\<forall>v salt'. truthy v \<longrightarrow>
                 post_register L salt' (Some (JString name)) (Some v) s' =
                   (Response 400 (Error ''Username already exists''), s'))"
proof -
  let ?u = "\<lparr>user_id = next_id s, username = name, password = bcrypt_digest L pw 10 salt\<rparr>"
  let ?s' = "s\<lparr>users := users s @ [?u], next_id := Suc (next_id s)\<rparr>"
  from assms(3) have none: "find (\<lambda>x. username x = name) (users s) = None"
    by (auto simp: find_None_iff)
  with assms(1-3) have first: "post_register L salt (Some (JString name)) (Some (JString pw)) s =
      (Response 201 (Message ''Registration successful!''), ?s')"
    by (simp add: post_register_def)
  have "find (\<lambda>x. username x = name) (users ?s') \<noteq> None"
    by (auto simp: find_None_iff)
  then obtain w where "find (\<lambda>x. username x = name) (users ?s') = Some w" by blast
  with assms(1) have "post_register L salt' (Some (JString name)) (Some v) ?s' =
      (Response 400 (Error ''Username already exists''), ?s')" if "truthy v" for v salt'
    using that by (simp add: post_register_def)
  moreover from assms(4) have "password ?u \<noteq> pw" by simp
  ultimately show ?thesis
    using first by (intro exI [of _ ?s'] exI [of _ ?u]) simp
qed

theorem register_then_duplicate_witness:
  "post_register sample_libs ''zz'' (Some (JString ''carol'')) (Some (JString ''hunter2''))
       sample_db =
     (Response 201 (Message ''Registration successful!''),
      sample_db\<lparr>users := users sample_db @
                   [\<lparr>user_id = 4, username = ''carol'', password = ''$zz2retnuh''\<rparr>],
                next_id := 5\<rparr>)
   \<and> post_register sample_libs ''yy'' (Some (JString ''carol'')) (Some (JString ''other''))
       (sample_db\<lparr>users := users sample_db @
                   [\<lparr>user_id = 4, username = ''carol'', password = ''$zz2retnuh''\<rparr>],
                next_id := 5\<rparr>) =
     (Response 400 (Error ''Username already exists''),
      sample_db\<lparr>users := users sample_db @
                   [\<lparr>user_id = 4, username = ''carol'', password = ''$zz2retnuh''\<rparr>],
                next_id := 5\<rparr>)"
proof -
  have n: "''carol'' \<notin> username ` set (users sample_db)"
    by (simp add: sample_db_def)
  have h: "\<forall>p cost sl. bcrypt_digest sample_libs p cost sl \<noteq> p"
  proof (intro allI notI)
    fix p :: string and cost :: nat and sl :: string
    assume "bcrypt_digest sample_libs p cost sl = p"
    then have "length (''$'' @ sl @ rev p) = length p" by (simp add: sample_libs_simps)
    then show False by simp
  qed
  have first: "post_register sample_libs ''zz'' (Some (JString ''carol''))
       (Some (JString ''hunter2'')) sample_db =
     (Response 201 (Message ''Registration successful!''),
      sample_db\<lparr>users := users sample_db @
                   [\<lparr>user_id = 4, username = ''carol'', password = ''$zz2retnuh''\<rparr>],
                next_id := 5\<rparr>)"
    by (simp add: post_register_def sample_db_def sample_libs_simps)
  from register_then_duplicate [OF _ _ n h, of "''hunter2''" "''zz''"]
  obtain s' where "post_register sample_libs ''zz'' (Some (JString ''carol''))
        (Some (JString ''hunter2'')) sample_db =
        (Response 201 (Message ''Registration successful!''), s')"
    and "\<forall>v salt'. truthy v \<longrightarrow>
           post_register sample_libs salt' (Some (JString ''carol'')) (Some v) s' =
             (Response 400 (Error ''Username already exists''), s')"
    by auto
  with first show ?thesis by simp
qed

section \<open>Tasks\<close>

lemma put_tasks_handler_200:
  assumes "wf_db s"
    and "put_tasks_handler L id_param title_field status_field date_field user s =
           (Response 200 body, s')"
  shows "\<exists>i ti st cd ti' st' d t.
           title_field = Some ti \<and> status_field = Some st \<and> date_field = Some cd \<and>
           cast_oid L id_param = Some i \<and> task_fields L ti st cd = Some (ti', st', d) \<and>
           t \<in> set (tasks s) \<and> task_id t = i \<and> userId t = payload_userId user \<and>
           body = MessageTask ''Task updated successfully''
                    (t\<lparr>title := ti', status := st', completionDate := d\<rparr>) \<and>
           s' = s\<lparr>tasks := map (\<lambda>x. if task_id x = i
                                       then x\<lparr>title := ti', status := st', completionDate := d\<rparr>
                                       else x) (tasks s)\<rparr>"
proof -
  from assms(1) have d: "distinct (map task_id (tasks s))" by (simp add: wf_db_def)
  from assms(2) have nf: "\<not> (falsy title_field \<or> falsy status_field \<or> falsy date_field)"
    by (auto simp: put_tasks_handler_def)
  then obtain ti st cd where f: "title_field = Some ti" "status_field = Some st"
      "date_field = Some cd"
    by (cases title_field; cases status_field; cases date_field) auto
  from assms(2) f nf obtain i where i: "cast_oid L id_param = Some i"
    by (auto simp: put_tasks_handler_def split: option.splits)
  from assms(2) f nf i obtain t where
    t: "find (\<lambda>t. task_id t = i \<and> userId t = payload_userId user) (tasks s) = Some t"
    by (auto simp: put_tasks_handler_def split: option.splits)
  from assms(2) f nf i t obtain ti' st' dd where tf: "task_fields L ti st cd = Some (ti', st', dd)"
    by (auto simp: put_tasks_handler_def split: option.splits)
  from t have tin: "t \<in> set (tasks s)" and tid: "task_id t = i"
    and town: "userId t = payload_userId user"
    by (auto simp: find_Some_iff)
  have "save_task (t\<lparr>title := ti', status := st', completionDate := dd\<rparr>) (tasks s) =
      map (\<lambda>x. if task_id x = i then x\<lparr>title := ti', status := st', completionDate := dd\<rparr>
                else x) (tasks s)"
    using d tid by (simp add: save_task_def updateOne_distinct)
  with assms(2) f nf i t tf have "body = MessageTask ''Task updated successfully''
        (t\<lparr>title := ti', status := st', completionDate := dd\<rparr>)"
    and "s' = s\<lparr>tasks := map (\<lambda>x. if task_id x = i
                                   then x\<lparr>title := ti', status := st', completionDate := dd\<rparr>
                                   else x) (tasks s)\<rparr>"
    by (auto simp: put_tasks_handler_def Let_def)
  with f i tf tin tid town show ?thesis by blast
qed

lemma task_fields_Some:
  "task_fields L ti st cd = Some (ti', st', d) \<Longrightarrow>
     String_cast L ti = Some ti' \<and> String_cast L st = Some st' \<and> cast_date L cd = Some d \<and>
     ti' \<noteq> [] \<and> st' \<noteq> []"
  by (auto simp: task_fields_def split: option.splits if_splits)

lemma not_falsy_Some: "\<not> falsy f \<Longrightarrow> \<exists>v. f = Some v \<and> truthy v"
  by (cases f) auto

text \<open>
  Claim C1, as the claim states it, fails for a \<^verbatim>\<open>PUT\<close> whose body lacks a field:
  bob's request on alice's task 2 with no status is answered 400, not 404, since the presence
  test comes before the lookup.
\<close>

theorem put_other_users_task_counterexample:
  "authenticateJWT sample_libs ''s3cret'' 200 bob_header sample_db = (Inr bob_claims, sample_db)
   \<and> payload_userId bob_claims = 1
   \<and> tasks sample_db ! 0 =
       \<lparr>task_id = 2, title = ''write'', status = ''open'',
        completionDate = 1704067200000, userId = 0\<rparr>
   \<and> cast_oid sample_libs ''2'' = Some 2
   \<and> put_tasks sample_libs ''s3cret'' 200 bob_header ''2''
       (Some (JString ''write'')) None (Some (JString ''2024-01-01'')) sample_db =
     (Response 400 (Error ''Please provide all fields''), sample_db)"
  by (simp add: put_tasks_def sample_route_bob sample_auth_bob put_tasks_handler_def
      sample_db_def sample_libs_simps bob_claims_def)

text \<open>
  Claim C1, amended. Let B be authenticated by a valid token and let a task of the store be
  owned by another user A. Then \<^verbatim>\<open>GET /tasks\<close> with B's token lists only tasks owned
  by B, so not that task; \<^verbatim>\<open>DELETE /tasks/:id\<close> on it answers 404 and leaves the
  store unchanged; \<^verbatim>\<open>PUT /tasks/:id\<close> on it answers 404 when title, status and
  completionDate are all present and 400 when one is missing, and leaves the store unchanged
  in both cases.
\<close>

theorem other_users_tasks_protected:
  assumes wf: "wf_db s"
    and auth: "authenticateJWT L secret now header s = (Inr userB, s)"
    and t: "t \<in> set (tasks s)"
    and owner: "userId t \<noteq> payload_userId userB"
    and param: "cast_oid L id_param = Some (task_id t)"
  shows "(\<exists>ts. get_tasks L secret now header s = (Response 200 (Tasks ts), s) \<and>
               (\<forall>x \<in> set ts. userId x = payload_userId userB) \<and> t \<notin> set ts)
     \<and> delete_tasks L secret now header id_param s =
         (Response 404 (Error ''Task not found or not authorized to delete it''), s)
     \<and> (truthy ti \<and> truthy st \<and> truthy cd \<longrightarrow>
          put_tasks L secret now header id_param (Some ti) (Some st) (Some cd) s =
            (Response 404 (Error ''Task not found or not authorized to update it''), s))
     \<and> (falsy title_field \<or> falsy status_field \<or> falsy date_field \<longrightarrow>
          put_tasks L secret now header id_param title_field status_field date_field s =
            (Response 400 (Error ''Please provide all fields''), s))
     \<and> (put_tasks L secret now header id_param title_field status_field date_field s =
           (Response 404 (Error ''Task not found or not authorized to update it''), s) \<or>
         put_tasks L secret now header id_param title_field status_field date_field s =
           (Response 400 (Error ''Please provide all fields''), s))"
proof -
  from wf have d: "distinct (map task_id (tasks s))" by (simp add: wf_db_def)
  have none: "find (\<lambda>x. task_id x = task_id t \<and> userId x = payload_userId userB) (tasks s) = None"
    by (rule find_owned_None [OF d t owner])
  have get: "get_tasks L secret now header s =
      (Response 200 (Tasks (filter (\<lambda>x. userId x = payload_userId userB) (tasks s))), s)"
    by (simp add: get_tasks_def protected_authenticated [OF auth] get_tasks_handler_def)
  have del: "delete_tasks L secret now header id_param s =
      (Response 404 (Error ''Task not found or not authorized to delete it''), s)"
    using param none
    by (simp add: delete_tasks_def protected_authenticated [OF auth] delete_tasks_handler_def)
  have put: "put_tasks L secret now header id_param (Some ti) (Some st) (Some cd) s =
      (Response 404 (Error ''Task not found or not authorized to update it''), s)"
    if "truthy ti \<and> truthy st \<and> truthy cd" for ti st cd
    using that param none
    by (simp add: put_tasks_def protected_authenticated [OF auth] put_tasks_handler_def)
  have miss: "put_tasks L secret now header id_param title_field status_field date_field s =
      (Response 400 (Error ''Please provide all fields''), s)"
    if "falsy title_field \<or> falsy status_field \<or> falsy date_field"
    using that
    by (simp add: put_tasks_def protected_authenticated [OF auth] put_tasks_handler_def)
  have any: "put_tasks L secret now header id_param title_field status_field date_field s =
           (Response 404 (Error ''Task not found or not authorized to update it''), s) \<or>
         put_tasks L secret now header id_param title_field status_field date_field s =
           (Response 400 (Error ''Please provide all fields''), s)"
  proof (cases "falsy title_field \<or> falsy status_field \<or> falsy date_field")
    case True
    with miss show ?thesis by simp
  next
    case False
    then obtain a b c where "title_field = Some a" "truthy a" "status_field = Some b" "truthy b"
        "date_field = Some c" "truthy c"
      using not_falsy_Some by blast
    with put [of a b c] show ?thesis by simp
  qed
  from get owner show ?thesis
    using del put miss any by auto
qed

theorem other_users_tasks_protected_witness:
  "get_tasks sample_libs ''s3cret'' 200 bob_header sample_db =
     (Response 200 (Tasks [\<lparr>task_id = 3, title = ''read'', status = ''open'',
                completionDate = 1719705600000, userId = 1\<rparr>]), sample_db)
   \<and> delete_tasks sample_libs ''s3cret'' 200 bob_header ''2'' sample_db =
     (Response 404 (Error ''Task not found or not authorized to delete it''), sample_db)
   \<and> put_tasks sample_libs ''s3cret'' 200 bob_header ''2''
       (Some (JString ''mine'')) (Some (JString ''done'')) (Some (JString ''2024-06-30''))
       sample_db =
     (Response 404 (Error ''Task not found or not authorized to update it''), sample_db)"
proof -
  let ?t = "\<lparr>task_id = 2, title = ''write'', status = ''open'',
             completionDate = 1704067200000, userId = 0\<rparr>"
  have t: "?t \<in> set (tasks sample_db)" by (simp add: sample_db_def)
  have o: "userId ?t \<noteq> payload_userId bob_claims" by (simp add: bob_claims_def)
  have p: "cast_oid sample_libs ''2'' = Some (task_id ?t)" by (simp add: sample_libs_simps)
  have g: "get_tasks sample_libs ''s3cret'' 200 bob_header sample_db =
     (Response 200 (Tasks [\<lparr>task_id = 3, title = ''read'', status = ''open'',
                completionDate = 1719705600000, userId = 1\<rparr>]), sample_db)"
    by (simp add: get_tasks_def sample_route_bob get_tasks_handler_def sample_db_def
        bob_claims_def)
  show ?thesis
    using g other_users_tasks_protected [OF wf_db_sample sample_auth_bob t o p,
        of "JString ''mine''" "JString ''done''" "JString ''2024-06-30''"]
    by simp
qed

text \<open>
  Claim C7. A \<^verbatim>\<open>PUT /tasks/:id\<close> that answers 200 was made by the owner of the task
  with that identifier; afterwards that task has the supplied title, status and completion
  date (as the schema casts them: a string as it is), with its identifier and owner as before;
  every other task, the users and the counter are unchanged.
\<close>

theorem put_changes_only_mutable_fields:
  assumes "wf_db s"
    and "put_tasks L secret now header id_param title_field status_field date_field s =
           (Response 200 body, s')"
  shows "\<exists>user i ti st cd ti' st' d t.
           authenticateJWT L secret now header s = (Inr user, s) \<and>
           title_field = Some ti \<and> status_field = Some st \<and> date_field = Some cd \<and>
           cast_oid L id_param = Some i \<and>
           String_cast L ti = Some ti' \<and> String_cast L st = Some st' \<and>
           cast_date L cd = Some d \<and>
           t \<in> set (tasks s) \<and> task_id t = i \<and> userId t = payload_userId user \<and>
           body = MessageTask ''Task updated successfully''
                    (t\<lparr>title := ti', status := st', completionDate := d\<rparr>) \<and>
           s' = s\<lparr>tasks := map (\<lambda>x. if task_id x = i
                                       then x\<lparr>title := ti', status := st', completionDate := d\<rparr>
                                       else x) (tasks s)\<rparr> \<and>
           map task_id (tasks s') = map task_id (tasks s) \<and>
           map userId (tasks s') = map userId (tasks s) \<and>
           users s' = users s"
proof -
  from assms(2) obtain user where auth: "authenticateJWT L secret now header s = (Inr user, s)"
    by (auto simp: put_tasks_def protected_def authenticateJWT_def
        split: option.splits if_splits sum.splits)
  with assms(2) have "put_tasks_handler L id_param title_field status_field date_field user s =
      (Response 200 body, s')"
    by (simp add: put_tasks_def protected_authenticated [OF auth])
  from put_tasks_handler_200 [OF assms(1) this] obtain i ti st cd ti' st' d t where
    h: "title_field = Some ti" "status_field = Some st" "date_field = Some cd"
      "cast_oid L id_param = Some i"
      "t \<in> set (tasks s)" "task_id t = i" "userId t = payload_userId user"
      "body = MessageTask ''Task updated successfully''
                    (t\<lparr>title := ti', status := st', completionDate := d\<rparr>)"
    and tf: "task_fields L ti st cd = Some (ti', st', d)"
    and s': "s' = s\<lparr>tasks := map (\<lambda>x. if task_id x = i
                                       then x\<lparr>title := ti', status := st', completionDate := d\<rparr>
                                       else x) (tasks s)\<rparr>"
    by blast
  from s' have "map task_id (tasks s') = map task_id (tasks s)"
    and "map userId (tasks s') = map userId (tasks s)" and "users s' = users s"
    by (simp_all add: comp_def if_distrib cong: if_cong)
  with auth h s' task_fields_Some [OF tf] show ?thesis by blast
qed

theorem put_changes_only_mutable_fields_witness:
  "put_tasks sample_libs ''s3cret'' 200 bob_header ''3''
       (Some (JString ''read more'')) (Some (JString ''done'')) (Some (JString ''2024-01-01''))
       sample_db =
     (Response 200 (MessageTask ''Task updated successfully''
        \<lparr>task_id = 3, title = ''read more'', status = ''done'',
         completionDate = 1704067200000, userId = 1\<rparr>),
      sample_db\<lparr>tasks :=
        [\<lparr>task_id = 2, title = ''write'', status = ''open'',
          completionDate = 1704067200000, userId = 0\<rparr>,
         \<lparr>task_id = 3, title = ''read more'', status = ''done'',
          completionDate = 1704067200000, userId = 1\<rparr>]\<rparr>)
   \<and> users (snd (put_tasks sample_libs ''s3cret'' 200 bob_header ''3''
       (Some (JString ''read more'')) (Some (JString ''done'')) (Some (JString ''2024-01-01''))
       sample_db)) = users sample_db"
proof -
  have r: "put_tasks sample_libs ''s3cret'' 200 bob_header ''3''
       (Some (JString ''read more'')) (Some (JString ''done'')) (Some (JString ''2024-01-01''))
       sample_db =
     (Response 200 (MessageTask ''Task updated successfully''
        \<lparr>task_id = 3, title = ''read more'', status = ''done'',
         completionDate = 1704067200000, userId = 1\<rparr>),
      sample_db\<lparr>tasks :=
        [\<lparr>task_id = 2, title = ''write'', status = ''open'',
          completionDate = 1704067200000, userId = 0\<rparr>,
         \<lparr>task_id = 3, title = ''read more'', status = ''done'',
          completionDate = 1704067200000, userId = 1\<rparr>]\<rparr>)"
    unfolding put_tasks_def sample_route_bob
    by (simp add: put_tasks_handler_def task_fields_def save_task_def sample_db_def
        sample_libs_simps bob_claims_def Let_def)
  from put_changes_only_mutable_fields [OF wf_db_sample r]
  have "users (sample_db\<lparr>tasks :=
        [\<lparr>task_id = 2, title = ''write'', status = ''open'',
          completionDate = 1704067200000, userId = 0\<rparr>,
         \<lparr>task_id = 3, title = ''read more'', status = ''done'',
          completionDate = 1704067200000, userId = 1\<rparr>]\<rparr>) = users sample_db"
    by blast
  with r show ?thesis by simp
qed

text \<open>
  Claim C3, as the claim states it, fails for values that are present and that the schema
  cannot cast to the type of their path: with a completionDate that is no date, or with a
  title that is an object, \<^verbatim>\<open>POST /tasks\<close> answers 500 and stores nothing, and the
  following \<^verbatim>\<open>GET /tasks\<close> lists no task.
\<close>

theorem task_uncastable_counterexample:
  "tasks empty_db = []
   \<and> authenticateJWT sample_libs ''s3cret'' 200 bob_header empty_db = (Inr bob_claims, empty_db)
   \<and> post_tasks sample_libs ''s3cret'' 200 bob_header
       (Some (JString ''x'')) (Some (JString ''open'')) (Some (JString ''not a date'')) empty_db =
     (Response 500 (Error ''An error occurred while adding the task''), empty_db)
   \<and> post_tasks sample_libs ''s3cret'' 200 bob_header
       (Some (JObject [(''a'', JNumber 1)])) (Some (JString ''open''))
       (Some (JString ''2024-01-01'')) empty_db =
     (Response 500 (Error ''An error occurred while adding the task''), empty_db)
   \<and> get_tasks sample_libs ''s3cret'' 200 bob_header empty_db =
     (Response 200 (Tasks []), empty_db)"
  by (simp add: post_tasks_def get_tasks_def sample_route_bob sample_auth_bob
      post_tasks_handler_def get_tasks_handler_def task_fields_def sample_libs_simps
      empty_db_def)

text \<open>
  Claim C3, amended. For an authenticated user with no task in the store and a title, a
  status and a completionDate that are all present and that the task schema accepts (title
  and status cast to String, a string as it is, and completionDate cast to Date):
  \<^verbatim>\<open>POST /tasks\<close> answers 201 and the next \<^verbatim>\<open>GET /tasks\<close> lists exactly one
  task, with the title, status and completion date as cast and the user as owner. A following
  \<^verbatim>\<open>PUT /tasks/:id\<close> on it, with three fields of the same kind, answers 200 and the
  next \<^verbatim>\<open>GET /tasks\<close> lists the task with the new fields, the new status among them;
  a following \<^verbatim>\<open>DELETE /tasks/:id\<close> answers 200 and the next \<^verbatim>\<open>GET /tasks\<close>
  lists nothing.
\<close>

theorem task_round_trip:
  assumes wf: "wf_db s"
    and auth: "authenticateJWT L secret now header s = (Inr user, s)"
    and none: "filter (\<lambda>t. userId t = payload_userId user) (tasks s) = []"
    and present: "truthy ti" "truthy st" "truthy cd"
    and fields: "task_fields L ti st cd = Some (ti', st', d)"
    and present2: "truthy ti2" "truthy st2" "truthy cd2"
    and fields2: "task_fields L ti2 st2 cd2 = Some (ti2', st2', d2)"
    and param: "cast_oid L id_param = Some (next_id s)"
  shows "\<exists>t t2 s1 s2 s3.
      t = \<lparr>task_id = next_id s, title = ti', status = st', completionDate = d,
           userId = payload_userId user\<rparr> \<and>
      t2 = \<lparr>task_id = next_id s, title = ti2', status = st2', completionDate = d2,
            userId = payload_userId user\<rparr> \<and>
      post_tasks L secret now header (Some ti) (Some st) (Some cd) s =
        (Response 201 (MessageTask ''Task added successfully'' t), s1) \<and>
      get_tasks L secret now header s1 = (Response 200 (Tasks [t]), s1) \<and>
      put_tasks L secret now header id_param (Some ti2) (Some st2) (Some cd2) s1 =
        (Response 200 (MessageTask ''Task updated successfully'' t2), s2) \<and>
      get_tasks L secret now header s2 = (Response 200 (Tasks [t2]), s2) \<and>
      delete_tasks L secret now header id_param s2 =
        (Response 200 (Message ''Task deleted successfully''), s3) \<and>
      get_tasks L secret now header s3 = (Response 200 (Tasks []), s3)"
proof -
  let ?uid = "payload_userId user"
  let ?t = "\<lparr>task_id = next_id s, title = ti', status = st', completionDate = d,
             userId = ?uid\<rparr>"
  let ?t2 = "\<lparr>task_id = next_id s, title = ti2', status = st2', completionDate = d2,
              userId = ?uid\<rparr>"
  let ?s1 = "s\<lparr>tasks := tasks s @ [?t], next_id := Suc (next_id s)\<rparr>"
  let ?s2 = "?s1\<lparr>tasks := tasks s @ [?t2]\<rparr>"
  let ?s3 = "?s2\<lparr>tasks := tasks s\<rparr>"
  note pa = protected_authenticated [OF auth]
  from wf have fresh: "\<forall>x \<in> set (tasks s). \<not> task_id x = next_id s"
    by (auto simp: wf_db_def)
  then have fresh': "\<forall>x \<in> set (tasks s). \<not> (task_id x = next_id s \<and> userId x = ?uid)"
    by simp
  have post: "post_tasks L secret now header (Some ti) (Some st) (Some cd) s =
      (Response 201 (MessageTask ''Task added successfully'' ?t), ?s1)"
    using present fields by (simp add: post_tasks_def pa post_tasks_handler_def Let_def)
  have get1: "get_tasks L secret now header ?s1 = (Response 200 (Tasks [?t]), ?s1)"
    using none by (simp add: get_tasks_def pa get_tasks_handler_def)
  have find1: "find (\<lambda>x. task_id x = next_id s \<and> userId x = ?uid) (tasks ?s1) = Some ?t"
    by (simp add: find_append_fresh [OF fresh'])
  have save: "save_task (?t\<lparr>title := ti2', status := st2', completionDate := d2\<rparr>) (tasks ?s1) =
      tasks s @ [?t2]"
    by (simp add: save_task_def updateOne_append_fresh [OF fresh])
  have put: "put_tasks L secret now header id_param (Some ti2) (Some st2) (Some cd2) ?s1 =
      (Response 200 (MessageTask ''Task updated successfully'' ?t2), ?s2)"
    using present2 fields2 param find1 save
    by (simp add: put_tasks_def pa put_tasks_handler_def Let_def)
  have get2: "get_tasks L secret now header ?s2 = (Response 200 (Tasks [?t2]), ?s2)"
    using none by (simp add: get_tasks_def pa get_tasks_handler_def)
  have find2: "find (\<lambda>x. task_id x = next_id s \<and> userId x = ?uid) (tasks ?s2) = Some ?t2"
    by (simp add: find_append_fresh [OF fresh'])
  have del: "delete_tasks L secret now header id_param ?s2 =
      (Response 200 (Message ''Task deleted successfully''), ?s3)"
    using param find2
    by (simp add: delete_tasks_def pa delete_tasks_handler_def deleteOne_append_fresh [OF fresh])
  have get3: "get_tasks L secret now header ?s3 = (Response 200 (Tasks []), ?s3)"
    using none by (simp add: get_tasks_def pa get_tasks_handler_def)
  from post get1 put get2 del get3 show ?thesis by blast
qed

theorem task_round_trip_witness:
  "post_tasks sample_libs ''s3cret'' 200 bob_header
       (Some (JString ''x'')) (Some (JString ''open'')) (Some (JString ''2024-01-01''))
       (sample_db\<lparr>tasks := []\<rparr>) =
     (Response 201 (MessageTask ''Task added successfully''
        \<lparr>task_id = 4, title = ''x'', status = ''open'', completionDate = 1704067200000,
         userId = 1\<rparr>),
      sample_db\<lparr>tasks := [\<lparr>task_id = 4, title = ''x'', status = ''open'',
                              completionDate = 1704067200000, userId = 1\<rparr>],
                next_id := 5\<rparr>)
   \<and> get_tasks sample_libs ''s3cret'' 200 bob_header
       (sample_db\<lparr>tasks := [\<lparr>task_id = 4, title = ''x'', status = ''open'',
                              completionDate = 1704067200000, userId = 1\<rparr>],
                next_id := 5\<rparr>) =
     (Response 200 (Tasks [\<lparr>task_id = 4, title = ''x'', status = ''open'',
                             completionDate = 1704067200000, userId = 1\<rparr>]),
      sample_db\<lparr>tasks := [\<lparr>task_id = 4, title = ''x'', status = ''open'',
                              completionDate = 1704067200000, userId = 1\<rparr>],
                next_id := 5\<rparr>)
   \<and> put_tasks sample_libs ''s3cret'' 200 bob_header ''4''
       (Some (JString ''x'')) (Some (JString ''done'')) (Some (JString ''2024-01-01''))
       (sample_db\<lparr>tasks := [\<lparr>task_id = 4, title = ''x'', status = ''open'',
                              completionDate = 1704067200000, userId = 1\<rparr>],
                next_id := 5\<rparr>) =
     (Response 200 (MessageTask ''Task updated successfully''
        \<lparr>task_id = 4, title = ''x'', status = ''done'', completionDate = 1704067200000,
         userId = 1\<rparr>),
      sample_db\<lparr>tasks := [\<lparr>task_id = 4, title = ''x'', status = ''done'',
                              completionDate = 1704067200000, userId = 1\<rparr>],
                next_id := 5\<rparr>)
   \<and> delete_tasks sample_libs ''s3cret'' 200 bob_header ''4''
       (sample_db\<lparr>tasks := [\<lparr>task_id = 4, title = ''x'', status = ''done'',
                              completionDate = 1704067200000, userId = 1\<rparr>],
                next_id := 5\<rparr>) =
     (Response 200 (Message ''Task deleted successfully''),
      sample_db\<lparr>tasks := [], next_id := 5\<rparr>)
   \<and> get_tasks sample_libs ''s3cret'' 200 bob_header
       (sample_db\<lparr>tasks := [], next_id := 5\<rparr>) =
     (Response 200 (Tasks []), sample_db\<lparr>tasks := [], next_id := 5\<rparr>)"
proof -
  let ?s = "sample_db\<lparr>tasks := []\<rparr>"
  have wf: "wf_db ?s" by (simp add: wf_db_def)
  have none: "filter (\<lambda>t. userId t = payload_userId bob_claims) (tasks ?s) = []" by simp
  have f1: "task_fields sample_libs (JString ''x'') (JString ''open'') (JString ''2024-01-01'') =
      Some (''x'', ''open'', 1704067200000)"
    by (simp add: task_fields_def sample_libs_simps)
  have f2: "task_fields sample_libs (JString ''x'') (JString ''done'') (JString ''2024-01-01'') =
      Some (''x'', ''done'', 1704067200000)"
    by (simp add: task_fields_def sample_libs_simps)
  have param: "cast_oid sample_libs ''4'' = Some (next_id ?s)"
    by (simp add: sample_libs_simps sample_db_def)
  have n: "next_id ?s = 4" by (simp add: sample_db_def)
  have u: "payload_userId bob_claims = 1" by (simp add: bob_claims_def)
  from task_round_trip [OF wf sample_auth_bob none _ _ _ f1 _ _ _ f2 param]
  obtain s1 s2 s3 where
    post: "post_tasks sample_libs ''s3cret'' 200 bob_header
       (Some (JString ''x'')) (Some (JString ''open'')) (Some (JString ''2024-01-01'')) ?s =
      (Response 201 (MessageTask ''Task added successfully''
        \<lparr>task_id = 4, title = ''x'', status = ''open'', completionDate = 1704067200000,
         userId = 1\<rparr>), s1)"
    and get1: "get_tasks sample_libs ''s3cret'' 200 bob_header s1 =
      (Response 200 (Tasks [\<lparr>task_id = 4, title = ''x'', status = ''open'',
                             completionDate = 1704067200000, userId = 1\<rparr>]), s1)"
    and put: "put_tasks sample_libs ''s3cret'' 200 bob_header ''4''
       (Some (JString ''x'')) (Some (JString ''done'')) (Some (JString ''2024-01-01'')) s1 =
      (Response 200 (MessageTask ''Task updated successfully''
        \<lparr>task_id = 4, title = ''x'', status = ''done'', completionDate = 1704067200000,
         userId = 1\<rparr>), s2)"
    and del: "delete_tasks sample_libs ''s3cret'' 200 bob_header ''4'' s2 =
      (Response 200 (Message ''Task deleted successfully''), s3)"
    and get3: "get_tasks sample_libs ''s3cret'' 200 bob_header s3 =
      (Response 200 (Tasks []), s3)"
    unfolding n u by auto
  have s1: "s1 = sample_db\<lparr>tasks := [\<lparr>task_id = 4, title = ''x'', status = ''open'',
                              completionDate = 1704067200000, userId = 1\<rparr>],
                next_id := 5\<rparr>"
    using post f1
    unfolding post_tasks_def sample_route_bob
    by (auto simp: post_tasks_handler_def Let_def sample_db_def bob_claims_def)
  have s2: "s2 = sample_db\<lparr>tasks := [\<lparr>task_id = 4, title = ''x'', status = ''done'',
                              completionDate = 1704067200000, userId = 1\<rparr>],
                next_id := 5\<rparr>"
    using put f2 param
    unfolding s1 put_tasks_def sample_route_bob
    by (simp add: put_tasks_handler_def Let_def save_task_def sample_db_def bob_claims_def)
  have s3: "s3 = sample_db\<lparr>tasks := [], next_id := 5\<rparr>"
    using del param
    unfolding s2 delete_tasks_def sample_route_bob
    by (simp add: delete_tasks_handler_def sample_db_def bob_claims_def)
  from post get1 put del get3 show ?thesis
    unfolding s1 s2 s3 by simp
qed

end
